theory Spec2Isabelle
  imports Complex_Main
begin

section \<open>Arrays of the affine engine\<close>

text \<open>
  The engine of \<^verbatim>\<open>src/affine/affine_transform.py\<close> is written for any dimension n; the view
  state of \<^verbatim>\<open>src/ImageControl.py\<close> only ever calls it with n = 2, on arrays of shape (2, 3)
  (three points, one per column) and (2, 1) (one point). The arrays are modelled at these
  shapes, row by row as numpy prints them, with entries in exact arithmetic (\<^typ>\<open>real\<close>)
  in place of float64. The shape checks of the source (ValueError, TypeError) cannot fail at
  these shapes and have no branch in the model.
\<close>

type_synonym vec2 = "real \<times> real"
type_synonym mat2 = "(real \<times> real) \<times> (real \<times> real)"
type_synonym coords = "(real \<times> real \<times> real) \<times> (real \<times> real \<times> real)"
type_synonym mat3 = "(real \<times> real \<times> real) \<times> (real \<times> real \<times> real) \<times> (real \<times> real \<times> real)"

datatype error = LinAlgError | ZeroDivisionError | IndexError

text \<open>The determinant of a (2, 2) array.\<close>

fun det2 :: "mat2 \<Rightarrow> real" where
  "det2 ((a, b), (c, d)) = a * d - b * c"

text \<open>
  \<^verbatim>\<open>np.linalg.inv\<close> on a (2, 2) array, in exact arithmetic: LinAlgError on a singular
  matrix. On float64 numpy raises when the elimination meets a pivot that is exactly zero,
  which is the same condition for the matrices the view state derives its matrix from, the
  diagonal ones with the viewport width and height on the diagonal; for other matrices
  rounding can separate the two.
\<close>

fun linalg_inv :: "mat2 \<Rightarrow> error + mat2" where
  "linalg_inv ((a, b), (c, d)) =
     (if det2 ((a, b), (c, d)) = 0 then Inl LinAlgError
      else Inr ((d / det2 ((a, b), (c, d)), - b / det2 ((a, b), (c, d))),
                (- c / det2 ((a, b), (c, d)), a / det2 ((a, b), (c, d)))))"

text \<open>\<^verbatim>\<open>A.dot(B)\<close> for (2, 2) by (2, 2), (2, 2) by (2, 1) and (2, 2) by (2, 3).\<close>

fun dot22 :: "mat2 \<Rightarrow> mat2 \<Rightarrow> mat2" where
  "dot22 ((a, b), (c, d)) ((e, f), (g, h)) =
     ((a * e + b * g, a * f + b * h), (c * e + d * g, c * f + d * h))"

fun dot21 :: "mat2 \<Rightarrow> vec2 \<Rightarrow> vec2" where
  "dot21 ((a, b), (c, d)) (x, y) = (a * x + b * y, c * x + d * y)"

fun dot23 :: "mat2 \<Rightarrow> coords \<Rightarrow> coords" where
  "dot23 ((a, b), (c, d)) ((x0, x1, x2), (y0, y1, y2)) =
     ((a * x0 + b * y0, a * x1 + b * y1, a * x2 + b * y2),
      (c * x0 + d * y0, c * x1 + d * y1, c * x2 + d * y2))"

text \<open>Broadcasting a (2, 1) column over a (2, 3) array: \<^verbatim>\<open>A + v\<close> and \<^verbatim>\<open>A - v\<close>.\<close>

fun add_col :: "coords \<Rightarrow> vec2 \<Rightarrow> coords" where
  "add_col ((x0, x1, x2), (y0, y1, y2)) (dx, dy) =
     ((x0 + dx, x1 + dx, x2 + dx), (y0 + dy, y1 + dy, y2 + dy))"

fun sub_col :: "coords \<Rightarrow> vec2 \<Rightarrow> coords" where
  "sub_col ((x0, x1, x2), (y0, y1, y2)) (dx, dy) =
     ((x0 - dx, x1 - dx, x2 - dx), (y0 - dy, y1 - dy, y2 - dy))"

fun sub_vec :: "vec2 \<Rightarrow> vec2 \<Rightarrow> vec2" where
  "sub_vec (x, y) (dx, dy) = (x - dx, y - dy)"

text \<open>\<^verbatim>\<open>coords[:, 0]\<close> as a column, and \<^verbatim>\<open>(coords - offset)[:, 1:]\<close>.\<close>

fun column0 :: "coords \<Rightarrow> vec2" where
  "column0 ((x0, x1, x2), (y0, y1, y2)) = (x0, y0)"

fun delta_coords :: "coords \<Rightarrow> mat2" where
  "delta_coords ((x0, x1, x2), (y0, y1, y2)) = ((x1 - x0, x2 - x0), (y1 - y0, y2 - y0))"

text \<open>The two \<^verbatim>\<open>np.concatenate\<close> calls that build the homogeneous (3, 3) matrix.\<close>

fun homogeneous :: "mat2 \<Rightarrow> vec2 \<Rightarrow> mat3" where
  "homogeneous ((a, b), (c, d)) (tx, ty) = ((a, b, tx), (c, d, ty), (0, 0, 1))"

section \<open>affine\_transform.py\<close>

definition affine_transform :: "coords \<Rightarrow> coords \<Rightarrow> error + mat3" where
  "affine_transform coords_in_frame1 coords_in_frame2 =
     (let offset1 = column0 coords_in_frame1;
          offset2 = column0 coords_in_frame2;
          delta_coords1 = delta_coords coords_in_frame1;
          delta_coords2 = delta_coords coords_in_frame2
      in case linalg_inv delta_coords1 of
           Inl e \<Rightarrow> Inl e
         | Inr inv1 \<Rightarrow>
             (let inner_matrix = dot22 delta_coords2 inv1;
                  translation = sub_vec offset2 (dot21 inner_matrix offset1)
              in Inr (homogeneous inner_matrix translation)))"

text \<open>\<^verbatim>\<open>M[:-1, :-1]\<close> and \<^verbatim>\<open>M[:rows-1, -1]\<close>.\<close>

fun inner_of :: "mat3 \<Rightarrow> mat2" where
  "inner_of ((a, b, tx), (c, d, ty), r3) = ((a, b), (c, d))"

fun translation_of :: "mat3 \<Rightarrow> vec2" where
  "translation_of ((a, b, tx), (c, d, ty), r3) = (tx, ty)"

fun neg_vec :: "vec2 \<Rightarrow> vec2" where
  "neg_vec (x, y) = (- x, - y)"

definition affine_inverse :: "mat3 \<Rightarrow> error + mat3" where
  "affine_inverse affine_transform_matrix =
     (let translation = translation_of affine_transform_matrix;
          inner_matrix = inner_of affine_transform_matrix
      in case linalg_inv inner_matrix of
           Inl e \<Rightarrow> Inl e
         | Inr inner_inverse \<Rightarrow>
             (let new_translation = neg_vec (dot21 inner_inverse translation)
              in Inr (homogeneous inner_inverse new_translation)))"

text \<open>
  \<^verbatim>\<open>affine_multiplication\<close> appends a row of ones to the points, multiplies and drops the
  last row of the product, so only the first two rows of the matrix are read. The source
  dispatches on the shape of \<^verbatim>\<open>vector\<close>; the two shapes the view state passes are a single
  (2, 1) point and a (2, 3) array of three points.
\<close>

fun affine_multiplication_point :: "mat3 \<Rightarrow> vec2 \<Rightarrow> vec2" where
  "affine_multiplication_point ((a, b, tx), (c, d, ty), r3) (x, y) =
     (a * x + b * y + tx * 1, c * x + d * y + ty * 1)"

fun affine_multiplication :: "mat3 \<Rightarrow> coords \<Rightarrow> coords" where
  "affine_multiplication ((a, b, tx), (c, d, ty), r3) ((x0, x1, x2), (y0, y1, y2)) =
     ((a * x0 + b * y0 + tx * 1, a * x1 + b * y1 + tx * 1, a * x2 + b * y2 + tx * 1),
      (c * x0 + d * y0 + ty * 1, c * x1 + d * y1 + ty * 1, c * x2 + d * y2 + ty * 1))"

section \<open>ImageControl.py\<close>

text \<open>
  A raster is a numpy array: its shape and its bytes. The engine reads only the shape;
  \<^verbatim>\<open>array.size\<close> is the product of the shape. \<^verbatim>\<open>np.ndarray((0,))\<close> is the empty raster.
\<close>

record raster =
  shape :: "nat list"
  pixels :: "nat list"

definition raster_size :: "raster \<Rightarrow> nat" where
  "raster_size r = prod_list (shape r)"

definition empty_raster :: raster where
  "empty_raster = \<lparr>shape = [0], pixels = []\<rparr>"

record image_control =
  core_image :: raster
  affine_transform_matrix :: mat3
  corners :: coords
  size_px :: "int \<times> int"
  background_color :: "int \<times> int \<times> int"

text \<open>
  A method returns the exception it raised, if any, together with the object as the method
  left it: an assignment made before the raise stays made.
\<close>

type_synonym outcome = "error option \<times> image_control"

fun get_coords_from_size :: "real \<times> real \<Rightarrow> coords" where
  "get_coords_from_size (s0, s1) = ((0, s0, 0), (0, 0, s1))"

fun float_size :: "int \<times> int \<Rightarrow> real \<times> real" where
  "float_size (w, h) = (real_of_int w, real_of_int h)"

definition update_affine_transform_matrix :: "image_control \<Rightarrow> outcome" where
  "update_affine_transform_matrix s =
     (case affine_transform (get_coords_from_size (float_size (size_px s))) (corners s) of
        Inl e \<Rightarrow> (Some e, s)
      | Inr m \<Rightarrow> (None, s\<lparr>affine_transform_matrix := m\<rparr>))"

definition pan :: "vec2 \<Rightarrow> image_control \<Rightarrow> outcome" where
  "pan delta s =
     (if raster_size (core_image s) = 0 then (None, s)
      else update_affine_transform_matrix
             (s\<lparr>corners := affine_multiplication (affine_transform_matrix s)
                   (add_col (get_coords_from_size (float_size (size_px s))) delta)\<rparr>))"

text \<open>The zoom factor is a number, or a list or tuple of two numbers.\<close>

datatype zoom_factor = Scalar real | PerAxis real real

fun factor_pair :: "zoom_factor \<Rightarrow> real \<times> real" where
  "factor_pair (Scalar f) = (f, f)"
| "factor_pair (PerAxis f0 f1) = (f0, f1)"

fun diag_matrix :: "real \<times> real \<Rightarrow> mat2" where
  "diag_matrix (f0, f1) = ((f0, 0), (0, f1))"

fun half_size :: "int \<times> int \<Rightarrow> vec2" where
  "half_size (w, h) = (real_of_int w / 2, real_of_int h / 2)"

text \<open>The centre of a zoom or a rotation: the given pixel, or the centre of the viewport.\<close>

fun center_or_default :: "vec2 option \<Rightarrow> int \<times> int \<Rightarrow> vec2" where
  "center_or_default None sz = half_size sz"
| "center_or_default (Some c) sz = c"

definition zoom :: "zoom_factor \<Rightarrow> vec2 option \<Rightarrow> image_control \<Rightarrow> outcome" where
  "zoom zf zoom_center_opt s =
     (if raster_size (core_image s) = 0 then (None, s)
      else
        (let zoom_center = center_or_default zoom_center_opt (size_px s);
             zoom_matrix = diag_matrix (factor_pair zf);
             delta = sub_vec (dot21 zoom_matrix zoom_center) zoom_center
         in update_affine_transform_matrix
              (s\<lparr>corners := affine_multiplication (affine_transform_matrix s)
                    (sub_col (dot23 zoom_matrix (get_coords_from_size (float_size (size_px s))))
                       delta)\<rparr>)))"

definition rotate :: "real \<Rightarrow> vec2 option \<Rightarrow> image_control \<Rightarrow> outcome" where
  "rotate rad_angle rot_center_opt s =
     (if raster_size (core_image s) = 0 then (None, s)
      else
        (let rot_center = center_or_default rot_center_opt (size_px s);
             transformed_center = affine_multiplication_point (affine_transform_matrix s) rot_center;
             cos_angle = cos rad_angle;
             sin_angle = sin rad_angle;
             rotation_matrix = ((cos_angle, - sin_angle), (sin_angle, cos_angle))
         in update_affine_transform_matrix
              (s\<lparr>corners := add_col (dot23 rotation_matrix (sub_col (corners s) transformed_center))
                    transformed_center\<rparr>)))"

text \<open>
  \<^verbatim>\<open>resize\<close> divides the new size by the old one with Python's \<^verbatim>\<open>/\<close>, which raises
  ZeroDivisionError on a zero divisor; the guard before it only excludes the size (0, 0).
\<close>

definition resize :: "int \<times> int \<Rightarrow> image_control \<Rightarrow> outcome" where
  "resize new_size s =
     (let r = (if raster_size (core_image s) \<noteq> 0 \<and> size_px s \<noteq> (0, 0) then
                 (if fst (size_px s) = 0 \<or> snd (size_px s) = 0 then (Some ZeroDivisionError, s)
                  else zoom (PerAxis (real_of_int (fst new_size) / real_of_int (fst (size_px s)))
                                     (real_of_int (snd new_size) / real_of_int (snd (size_px s))))
                         None s)
               else (None, s))
      in case r of
           (Some e, s1) \<Rightarrow> (Some e, s1)
         | (None, s1) \<Rightarrow>
             (let s2 = s1\<lparr>size_px := new_size\<rparr>
              in if raster_size (core_image s2) \<noteq> 0 then update_affine_transform_matrix s2
                 else (None, s2)))"

text \<open>
  \<^verbatim>\<open>reset_corners\<close> reads \<^verbatim>\<open>img_shape[0]\<close> and \<^verbatim>\<open>img_shape[1]\<close>: on a non-empty array of
  fewer than two dimensions that is an IndexError, raised before anything is assigned.
\<close>

definition reset_corners :: "image_control \<Rightarrow> outcome" where
  "reset_corners s =
     (if fst (size_px s) = 0 \<or> snd (size_px s) = 0 \<or> raster_size (core_image s) = 0
         \<or> 0 \<in> set (take 2 (shape (core_image s)))
      then (None, s)
      else
        (case shape (core_image s) of
           h # w # rest \<Rightarrow>
             (let size0 = real_of_int (fst (size_px s));
                  size1 = real_of_int (snd (size_px s));
                  (height, width, offset) =
                    (if real h / real w = size1 / size0 then (real h, real w, (0, 0))
                     else if real h / real w > size1 / size0 then
                       (let height = real h; width = size0 / size1 * height
                        in (height, width, ((width - real w) / 2, 0)))
                     else
                       (let width = real w; height = size1 / size0 * width
                        in (height, width, (0, (height - real h) / 2))))
              in update_affine_transform_matrix
                   (s\<lparr>corners := sub_col (get_coords_from_size (width, height)) offset\<rparr>))
         | _ \<Rightarrow> (Some IndexError, s)))"

definition load_image :: "raster \<Rightarrow> image_control \<Rightarrow> outcome" where
  "load_image img s = reset_corners (s\<lparr>core_image := img\<rparr>)"

text \<open>
  \<^verbatim>\<open>affine_image_transform\<close> drops the last row of the (3, 3) matrix and hands the rest to
  \<^verbatim>\<open>cv2.warpAffine\<close>, an external primitive: it is a parameter of the model.
\<close>

type_synonym warp_affine =
  "raster \<Rightarrow> (real \<times> real \<times> real) \<times> (real \<times> real \<times> real) \<Rightarrow> int \<times> int \<Rightarrow> int \<times> int \<times> int \<Rightarrow> raster"

fun affine_image_transform ::
  "warp_affine \<Rightarrow> raster \<Rightarrow> mat3 \<Rightarrow> int \<times> int \<Rightarrow> int \<times> int \<times> int \<Rightarrow> raster" where
  "affine_image_transform warp img (r1, r2, r3) sz bg = warp img (r1, r2) sz bg"

text \<open>
  \<^verbatim>\<open>get_image\<close> refreshes the matrix before its \<^verbatim>\<open>try\<close>; the \<^verbatim>\<open>except\<close> clause covers the
  inversion and the warp only, and catches LinAlgError only.
\<close>

definition get_image :: "warp_affine \<Rightarrow> image_control \<Rightarrow> (error + raster) \<times> image_control" where
  "get_image warp s =
     (if raster_size (core_image s) = 0 then (Inr (core_image s), s)
      else
        (case update_affine_transform_matrix s of
           (Some e, s1) \<Rightarrow> (Inl e, s1)
         | (None, s1) \<Rightarrow>
             (case affine_inverse (affine_transform_matrix s1) of
                Inl LinAlgError \<Rightarrow> (Inr empty_raster, s1)
              | Inl e \<Rightarrow> (Inl e, s1)
              | Inr m \<Rightarrow>
                  (Inr (affine_image_transform warp (core_image s1) m (size_px s1)
                          (background_color s1)), s1))))"

text \<open>The constructor without an image; with one it goes on to \<^verbatim>\<open>load_image\<close>.\<close>

definition new_control :: "int \<times> int \<Rightarrow> int \<times> int \<times> int \<Rightarrow> image_control" where
  "new_control sz bg =
     \<lparr>core_image = empty_raster,
      affine_transform_matrix = ((0, 0, 0), (0, 0, 0), (0, 0, 0)),
      corners = ((0, 0, 0), (0, 0, 0)),
      size_px = sz,
      background_color = bg\<rparr>"

definition init :: "raster option \<Rightarrow> int \<times> int \<Rightarrow> int \<times> int \<times> int \<Rightarrow> outcome" where
  "init img_opt sz bg =
     (case img_opt of None \<Rightarrow> (None, new_control sz bg)
      | Some img \<Rightarrow> load_image img (new_control sz bg))"

section \<open>States, reachability and command sequences\<close>

text \<open>
  Three points are collinear (or coincident) when the cross product of the two edges that
  leave the first point vanishes.
\<close>

fun collinear :: "coords \<Rightarrow> bool" where
  "collinear ((x0, x1, x2), (y0, y1, y2)) = ((x1 - x0) * (y2 - y0) - (x2 - x0) * (y1 - y0) = 0)"

text \<open>A raster is loaded and the viewport has no zero dimension.\<close>

definition has_image :: "image_control \<Rightarrow> bool" where
  "has_image s =
     (raster_size (core_image s) \<noteq> 0 \<and> fst (size_px s) \<noteq> 0 \<and> snd (size_px s) \<noteq> 0)"

text \<open>The cached matrix is the one \<^verbatim>\<open>update_affine_transform_matrix\<close> would compute.\<close>

definition cache_ok :: "image_control \<Rightarrow> bool" where
  "cache_ok s =
     (affine_transform (get_coords_from_size (float_size (size_px s))) (corners s)
        = Inr (affine_transform_matrix s))"

text \<open>
  The rasters the application loads are decoded images (height, width, channels) or the
  empty array \<^verbatim>\<open>np.ndarray((0,))\<close>.
\<close>

definition two_dim :: "raster \<Rightarrow> bool" where
  "two_dim r = (raster_size r = 0 \<or> 2 \<le> length (shape r))"

text \<open>The states an object can be in: built by the constructor, changed by its methods.\<close>

inductive reachable :: "image_control \<Rightarrow> bool" where
  reach_new: "reachable (new_control sz bg)"
| reach_load: "reachable s \<Longrightarrow> two_dim img \<Longrightarrow> reachable (snd (load_image img s))"
| reach_resize: "reachable s \<Longrightarrow> reachable (snd (resize new_size s))"
| reach_reset: "reachable s \<Longrightarrow> reachable (snd (reset_corners s))"
| reach_pan: "reachable s \<Longrightarrow> reachable (snd (pan delta s))"
| reach_zoom: "reachable s \<Longrightarrow> reachable (snd (zoom zf c s))"
| reach_rotate: "reachable s \<Longrightarrow> reachable (snd (rotate angle c s))"
| reach_update: "reachable s \<Longrightarrow> reachable (snd (update_affine_transform_matrix s))"
| reach_get: "reachable s \<Longrightarrow> reachable (snd (get_image warp s))"






text \<open>
  A concrete session: an object constructed with a 400 by 400 BGR image and a viewport of
  800 by 600.
\<close>

definition square_image :: raster where
  "square_image = \<lparr>shape = [400, 400, 3], pixels = replicate (400 * 400 * 3) 0\<rparr>"

definition square_session :: image_control where
  "square_session = snd (init (Some square_image) (800, 600) (0, 0, 0))"

section \<open>Matrix algebra and the invariant of the view state\<close>

lemma linalg_inv_Inl: "linalg_inv m = Inl e \<longleftrightarrow> det2 m = 0 \<and> e = LinAlgError"
  by (cases m rule: linalg_inv.cases) auto


lemma det2_adjugate:
  fixes a b c d :: real
  assumes "a * d - b * c \<noteq> 0"
  shows "d / (a * d - b * c) * (a / (a * d - b * c))
           - (- b / (a * d - b * c)) * (- c / (a * d - b * c)) = 1 / (a * d - b * c)"
proof -
  define D where "D = a * d - b * c"
  have D: "D \<noteq> 0" using assms by (simp add: D_def)
  have "d / D * (a / D) - (- b / D) * (- c / D) = (a * d - b * c) / (D * D)"
    by (simp add: diff_divide_distrib mult.commute)
  also have "\<dots> = D / (D * D)" by (simp add: D_def)
  also have "\<dots> = 1 / D" using D by simp
  finally show ?thesis by (simp add: D_def)
qed

lemma det2_linalg_inv: "linalg_inv m = Inr mi \<Longrightarrow> det2 m \<noteq> 0 \<and> det2 mi = 1 / det2 m"
proof (cases m rule: linalg_inv.cases)
  case (1 a b c d)
  assume inv: "linalg_inv m = Inr mi"
  with 1 have nz: "a * d - b * c \<noteq> 0" by (auto split: if_splits)
  with 1 inv have mi: "mi = ((d / (a * d - b * c), - b / (a * d - b * c)),
                        (- c / (a * d - b * c), a / (a * d - b * c)))"
    by auto
  show ?thesis using det2_adjugate [OF nz] nz by (simp only: 1 mi det2.simps) simp
qed






lemma affine_transform_Inl:
  "affine_transform b1 b2 = Inl e \<longleftrightarrow> det2 (delta_coords b1) = 0 \<and> e = LinAlgError"
  by (auto simp: affine_transform_def Let_def linalg_inv_Inl split: sum.splits
      dest: det2_linalg_inv)


lemma affine_transform_total:
  "det2 (delta_coords b1) \<noteq> 0 \<Longrightarrow> \<exists>M. affine_transform b1 b2 = Inr M"
  by (cases "affine_transform b1 b2") (auto simp: affine_transform_Inl)


lemma det2_view_basis:
  "det2 (delta_coords (get_coords_from_size (float_size sz))) = real_of_int (fst sz) * real_of_int (snd sz)"
  by (cases sz) simp

lemma update_ok:
  assumes "fst (size_px s) \<noteq> 0" "snd (size_px s) \<noteq> 0"
  shows "\<exists>m. update_affine_transform_matrix s = (None, s\<lparr>affine_transform_matrix := m\<rparr>)
           \<and> cache_ok (s\<lparr>affine_transform_matrix := m\<rparr>)"
proof -
  have "det2 (delta_coords (get_coords_from_size (float_size (size_px s)))) \<noteq> 0"
    using assms by (simp add: det2_view_basis)
  then obtain m where "affine_transform (get_coords_from_size (float_size (size_px s))) (corners s) = Inr m"
    using affine_transform_total by blast
  then show ?thesis
    by (intro exI [of _ m]) (simp add: update_affine_transform_matrix_def cache_ok_def)
qed

lemma update_fail:
  assumes "fst (size_px s) = 0 \<or> snd (size_px s) = 0"
  shows "update_affine_transform_matrix s = (Some LinAlgError, s)"
proof -
  have "det2 (delta_coords (get_coords_from_size (float_size (size_px s)))) = 0"
    using assms by (auto simp: det2_view_basis)
  then have "affine_transform (get_coords_from_size (float_size (size_px s))) (corners s) = Inl LinAlgError"
    by (simp add: affine_transform_Inl)
  then show ?thesis by (simp add: update_affine_transform_matrix_def)
qed

lemma update_cache:
  "has_image (snd (update_affine_transform_matrix s)) \<longrightarrow> cache_ok (snd (update_affine_transform_matrix s))"
proof (cases "fst (size_px s) = 0 \<or> snd (size_px s) = 0")
  case True
  then show ?thesis by (auto simp: update_fail has_image_def)
next
  case False
  then obtain m where "update_affine_transform_matrix s = (None, s\<lparr>affine_transform_matrix := m\<rparr>)"
    "cache_ok (s\<lparr>affine_transform_matrix := m\<rparr>)" using update_ok by blast
  then show ?thesis by simp
qed

lemma update_frame:
  "core_image (snd (update_affine_transform_matrix s)) = core_image s"
  "size_px (snd (update_affine_transform_matrix s)) = size_px s"
  "corners (snd (update_affine_transform_matrix s)) = corners s"
  "background_color (snd (update_affine_transform_matrix s)) = background_color s"
  by (auto simp: update_affine_transform_matrix_def split: sum.splits)

lemma pan_frame:
  "core_image (snd (pan d s)) = core_image s"
  "size_px (snd (pan d s)) = size_px s"
  "background_color (snd (pan d s)) = background_color s"
  by (simp_all add: pan_def update_frame)

lemma zoom_frame:
  "core_image (snd (zoom zf c s)) = core_image s"
  "size_px (snd (zoom zf c s)) = size_px s"
  "background_color (snd (zoom zf c s)) = background_color s"
  by (simp_all add: zoom_def Let_def update_frame)

lemma rotate_frame:
  "core_image (snd (rotate a c s)) = core_image s"
  "size_px (snd (rotate a c s)) = size_px s"
  "background_color (snd (rotate a c s)) = background_color s"
  by (simp_all add: rotate_def Let_def update_frame)

lemma get_image_state:
  "snd (get_image warp s) = (if raster_size (core_image s) = 0 then s
                             else snd (update_affine_transform_matrix s))"
  by (auto simp: get_image_def split: prod.splits option.splits sum.splits error.splits)

lemma get_image_frame:
  "core_image (snd (get_image warp s)) = core_image s"
  "size_px (snd (get_image warp s)) = size_px s"
  "background_color (snd (get_image warp s)) = background_color s"
  "corners (snd (get_image warp s)) = corners s"
  by (simp_all add: get_image_state update_frame)

lemma reset_frame:
  "core_image (snd (reset_corners s)) = core_image s"
  "size_px (snd (reset_corners s)) = size_px s"
  "background_color (snd (reset_corners s)) = background_color s"
  by (auto simp: reset_corners_def Let_def update_frame split: list.splits prod.splits)

lemma resize_core_image: "core_image (snd (resize n s)) = core_image s"
  by (auto simp: resize_def Let_def update_frame zoom_frame split: prod.splits option.splits
      dest: arg_cong [where f = "\<lambda>r. core_image (snd r)"])

lemma load_core_image: "core_image (snd (load_image img s)) = img"
  by (simp add: load_image_def reset_frame)

lemma reachable_two_dim: "reachable s \<Longrightarrow> two_dim (core_image s)"
  by (induction rule: reachable.induct)
     (simp_all add: load_core_image resize_core_image reset_frame pan_frame zoom_frame
        rotate_frame update_frame get_image_frame new_control_def two_dim_def raster_size_def
        empty_raster_def)

lemma pan_cache: "has_image (snd (pan d s)) \<longrightarrow> cache_ok (snd (pan d s))"
  using update_cache by (simp add: pan_def has_image_def)

lemma zoom_cache: "has_image (snd (zoom zf c s)) \<longrightarrow> cache_ok (snd (zoom zf c s))"
  using update_cache by (simp add: zoom_def has_image_def Let_def)

lemma rotate_cache: "has_image (snd (rotate a c s)) \<longrightarrow> cache_ok (snd (rotate a c s))"
  using update_cache by (simp add: rotate_def has_image_def Let_def)

lemma get_image_cache:
  "has_image (snd (get_image warp s)) \<longrightarrow> cache_ok (snd (get_image warp s))"
  using update_cache by (simp add: get_image_state has_image_def)

lemma raster_size_shape:
  "raster_size r \<noteq> 0 \<Longrightarrow> 0 \<notin> set (shape r)"
  by (simp add: raster_size_def prod_list_zero_iff)

lemma shape_two_dim:
  assumes "two_dim r" "raster_size r \<noteq> 0"
  obtains h w rest where "shape r = h # w # rest" "h \<noteq> 0" "w \<noteq> 0"
proof -
  from assms have "2 \<le> length (shape r)" by (simp add: two_dim_def)
  then obtain h w rest where sh: "shape r = h # w # rest"
    by (cases "shape r"; cases "tl (shape r)") auto
  moreover from raster_size_shape [OF assms(2)] sh have "h \<noteq> 0" "w \<noteq> 0" by auto
  ultimately show ?thesis using that by blast
qed

lemma reset_cache:
  assumes "two_dim (core_image s)"
  shows "has_image (snd (reset_corners s)) \<longrightarrow> cache_ok (snd (reset_corners s))"
proof (cases "has_image s")
  case False
  then show ?thesis using reset_frame [of s] by (auto simp: has_image_def)
next
  case True
  then have nz: "raster_size (core_image s) \<noteq> 0" by (simp add: has_image_def)
  from shape_two_dim [OF assms nz] obtain h w rest
    where sh: "shape (core_image s) = h # w # rest" and "h \<noteq> 0" "w \<noteq> 0" by blast
  then show ?thesis using True update_cache
    by (simp add: reset_corners_def has_image_def Let_def split: prod.splits)
qed

lemma resize_cache: "has_image (snd (resize n s)) \<longrightarrow> cache_ok (snd (resize n s))"
proof (cases "raster_size (core_image s) = 0")
  case True
  then show ?thesis by (simp add: resize_def has_image_def)
next
  case img: False
  show ?thesis
  proof (cases "size_px s = (0, 0)")
    case True
    then show ?thesis using img update_cache by (simp add: resize_def)
  next
    case False
    show ?thesis
    proof (cases "fst (size_px s) = 0 \<or> snd (size_px s) = 0")
      case True
      then show ?thesis using img False by (auto simp: resize_def has_image_def)
    next
      case nz: False
      let ?z = "zoom (PerAxis (real_of_int (fst n) / real_of_int (fst (size_px s)))
                        (real_of_int (snd n) / real_of_int (snd (size_px s)))) None s"
      obtain r s1 where z: "?z = (r, s1)" by (cases ?z)
      have s1: "s1 = snd ?z" by (simp add: z)
      have im1: "raster_size (core_image s1) \<noteq> 0" using img by (simp add: s1 zoom_frame)
      show ?thesis
      proof (cases r)
        case None
        then show ?thesis using img False nz z im1 update_cache
          by (simp add: resize_def)
      next
        case (Some e)
        have "has_image s1 \<longrightarrow> cache_ok s1" unfolding s1 by (rule zoom_cache)
        then show ?thesis using Some img False nz z
          by (simp add: resize_def)
      qed
    qed
  qed
qed

lemma load_cache:
  assumes "two_dim img"
  shows "has_image (snd (load_image img s)) \<longrightarrow> cache_ok (snd (load_image img s))"
  unfolding load_image_def using assms by (intro reset_cache) simp

lemma reachable_cache: "reachable s \<Longrightarrow> has_image s \<Longrightarrow> cache_ok s"
proof (induction rule: reachable.induct)
  case (reach_new sz bg)
  then show ?case by (simp add: has_image_def new_control_def raster_size_def empty_raster_def)
next
  case (reach_reset s)
  then show ?case using reset_cache [OF reachable_two_dim] by blast
qed (use load_cache resize_cache pan_cache zoom_cache rotate_cache update_cache get_image_cache in blast)+


lemma set_corners_update:
  assumes "has_image s"
  shows "\<exists>m. update_affine_transform_matrix (s\<lparr>corners := c\<rparr>)
               = (None, s\<lparr>corners := c, affine_transform_matrix := m\<rparr>)
           \<and> cache_ok (s\<lparr>corners := c, affine_transform_matrix := m\<rparr>)"
  using update_ok [of "s\<lparr>corners := c\<rparr>"] assms by (simp add: has_image_def)





lemma reset_corners_unfold:
  assumes "has_image s" "shape (core_image s) = h # w # rest"
  shows "reset_corners s =
           update_affine_transform_matrix
             (s\<lparr>corners :=
                  (if real h / real w = real_of_int (snd (size_px s)) / real_of_int (fst (size_px s))
                   then get_coords_from_size (real w, real h)
                   else if real h / real w > real_of_int (snd (size_px s)) / real_of_int (fst (size_px s))
                   then sub_col (get_coords_from_size
                                   (real_of_int (fst (size_px s)) / real_of_int (snd (size_px s)) * real h, real h))
                          ((real_of_int (fst (size_px s)) / real_of_int (snd (size_px s)) * real h - real w) / 2, 0)
                   else sub_col (get_coords_from_size
                                   (real w, real_of_int (snd (size_px s)) / real_of_int (fst (size_px s)) * real w))
                          (0, (real_of_int (snd (size_px s)) / real_of_int (fst (size_px s)) * real w - real h) / 2))\<rparr>)"
proof -
  from assms have "0 \<notin> set (shape (core_image s))"
    by (intro raster_size_shape) (simp add: has_image_def)
  with assms(2) have "h \<noteq> 0" "w \<noteq> 0" by auto
  with assms show ?thesis
    by (simp add: reset_corners_def has_image_def Let_def)
qed






lemma derive_matrix:
  assumes "W \<noteq> 0" "H \<noteq> 0"
  shows "affine_transform ((0, W, 0), (0, 0, H)) ((x0, x1, x2), (y0, y1, y2)) =
           Inr (((x1 - x0) / W, (x2 - x0) / H, x0), ((y1 - y0) / W, (y2 - y0) / H, y0), (0, 0, 1))"
  using assms by (simp add: affine_transform_def)

lemma derive_unique:
  assumes "W \<noteq> 0" "H \<noteq> 0"
    and "affine_transform (get_coords_from_size (W, H))
           (affine_multiplication N (get_coords_from_size (W, H))) = Inr M"
  shows "affine_multiplication_point M p = affine_multiplication_point N p"
proof -
  obtain a b tx c d ty r3 where N: "N = ((a, b, tx), (c, d, ty), r3)"
    by (cases N rule: inner_of.cases) blast
  obtain px py where p: "p = (px, py)" by (cases p)
  from assms(3) have "M = ((a, b, tx), (c, d, ty), (0, 0, 1))"
    using assms(1,2) by (simp add: N derive_matrix)
  then show ?thesis by (simp add: N p)
qed

lemma affine_multiplication_ext:
  assumes "\<And>p. affine_multiplication_point A p = affine_multiplication_point B p"
  shows "affine_multiplication A c = affine_multiplication B c"
proof -
  obtain a b tx c' d ty r3 where A: "A = ((a, b, tx), (c', d, ty), r3)"
    by (cases A rule: inner_of.cases) blast
  obtain e f ux g h uy q3 where B: "B = ((e, f, ux), (g, h, uy), q3)"
    by (cases B rule: inner_of.cases) blast
  obtain x0 x1 x2 y0 y1 y2 where c: "c = ((x0, x1, x2), (y0, y1, y2))"
    by (cases c rule: delta_coords.cases) blast
  from assms [of "(x0, y0)"] assms [of "(x1, y1)"] assms [of "(x2, y2)"]
  show ?thesis by (simp add: A B c)
qed

lemma cache_apply:
  assumes "has_image s" "cache_ok s"
  shows "affine_multiplication (affine_transform_matrix s)
           (get_coords_from_size (float_size (size_px s))) = corners s"
proof -
  obtain W H where sz: "size_px s = (W, H)" by (cases "size_px s")
  obtain x0 x1 x2 y0 y1 y2 where c: "corners s = ((x0, x1, x2), (y0, y1, y2))"
    by (cases "corners s" rule: delta_coords.cases) blast
  from assms(1) have nz: "real_of_int W \<noteq> 0" "real_of_int H \<noteq> 0" by (simp_all add: has_image_def sz)
  from assms(2) have "affine_transform_matrix s =
      (((x1 - x0) / real_of_int W, (x2 - x0) / real_of_int H, x0),
       ((y1 - y0) / real_of_int W, (y2 - y0) / real_of_int H, y0), (0, 0, 1))"
    using nz by (simp add: cache_ok_def sz c derive_matrix)
  then show ?thesis using nz by (simp add: sz c)
qed

lemma derive_unique_state:
  assumes "has_image s"
    and "affine_transform (get_coords_from_size (float_size (size_px s)))
           (affine_multiplication N (get_coords_from_size (float_size (size_px s)))) = Inr M"
  shows "affine_multiplication_point M p = affine_multiplication_point N p"
proof -
  obtain W H where sz: "size_px s = (W, H)" by (cases "size_px s")
  from assms(1) have nz: "real_of_int W \<noteq> 0" "real_of_int H \<noteq> 0" by (simp_all add: has_image_def sz)
  from derive_unique [OF nz] assms(2) show ?thesis by (simp add: sz)
qed

lemma pan_result:
  assumes "has_image s"
  shows "\<exists>m. pan d s = (None, s\<lparr>corners := affine_multiplication (affine_transform_matrix s)
                                   (add_col (get_coords_from_size (float_size (size_px s))) d),
                                 affine_transform_matrix := m\<rparr>)
           \<and> affine_transform (get_coords_from_size (float_size (size_px s)))
                (affine_multiplication (affine_transform_matrix s)
                   (add_col (get_coords_from_size (float_size (size_px s))) d)) = Inr m"
  using set_corners_update [OF assms] assms
  by (auto simp: pan_def has_image_def cache_ok_def)

lemma pan_compose:
  "affine_multiplication ((a, b, tx), (c, d, ty), r3) (add_col B (dx, dy)) =
   affine_multiplication ((a, b, a * dx + b * dy + tx), (c, d, c * dx + d * dy + ty), r3) B"
  by (cases B rule: delta_coords.cases) (simp add: algebra_simps)

text \<open>
  Claim C7. Pan and inverse pan: in a reachable state with a raster loaded, a viewport
  without a zero dimension and non-collinear corners, \<open>pan d\<close> followed by \<open>pan (- d)\<close>
  restores the corners exactly, for every delta \<open>d\<close> and whatever zooms and rotations came
  before.
\<close>

theorem pan_inverse:
  assumes "reachable s" "has_image s" "\<not> collinear (corners s)"
  shows "\<exists>s1 s2. pan d s = (None, s1) \<and> pan (neg_vec d) s1 = (None, s2) \<and> corners s2 = corners s"
proof -
  let ?B = "get_coords_from_size (float_size (size_px s))"
  let ?M = "affine_transform_matrix s"
  have co: "cache_ok s" using assms reachable_cache by blast
  obtain a b tx c e ty r3 where M: "?M = ((a, b, tx), (c, e, ty), r3)"
    by (cases ?M rule: inner_of.cases) blast
  obtain dx dy where d: "d = (dx, dy)" by (cases d)
  let ?N = "((a, b, a * dx + b * dy + tx), (c, e, c * dx + e * dy + ty), r3)"
  from pan_result [OF assms(2), of d] obtain m1 where
    p1: "pan d s = (None, s\<lparr>corners := affine_multiplication ?M (add_col ?B d),
                              affine_transform_matrix := m1\<rparr>)"
    and m1: "affine_transform ?B (affine_multiplication ?M (add_col ?B d)) = Inr m1" by blast
  let ?s1 = "s\<lparr>corners := affine_multiplication ?M (add_col ?B d), affine_transform_matrix := m1\<rparr>"
  have hi1: "has_image ?s1" using assms(2) by (simp add: has_image_def)
  from pan_result [OF hi1, of "neg_vec d"] obtain m2 where
    p2: "pan (neg_vec d) ?s1 = (None, ?s1\<lparr>corners := affine_multiplication m1 (add_col ?B (neg_vec d)),
                              affine_transform_matrix := m2\<rparr>)"
    by auto
  have "affine_multiplication ?M (add_col ?B d) = affine_multiplication ?N ?B"
    by (simp only: M d pan_compose)
  with m1 have "affine_transform ?B (affine_multiplication ?N ?B) = Inr m1" by simp
  from derive_unique_state [OF assms(2) this]
  have "affine_multiplication m1 (add_col ?B (neg_vec d)) = affine_multiplication ?N (add_col ?B (neg_vec d))"
    by (intro affine_multiplication_ext) blast
  also have "\<dots> = affine_multiplication ?M ?B"
    by (cases ?B rule: delta_coords.cases) (simp add: M d algebra_simps)
  also have "\<dots> = corners s" by (rule cache_apply [OF assms(2) co])
  finally have "corners (?s1\<lparr>corners := affine_multiplication m1 (add_col ?B (neg_vec d)),
                              affine_transform_matrix := m2\<rparr>) = corners s" by simp
  with p1 p2 show ?thesis by blast
qed







section \<open>A concrete session\<close>

lemma square_image_size: "raster_size square_image \<noteq> 0"
  by (simp add: raster_size_def square_image_def)

lemma square_session_eq:
  "square_session =
     \<lparr>core_image = square_image,
      affine_transform_matrix = ((2 / 3, 0, - 200 / 3), (0, 2 / 3, 0), (0, 0, 1)),
      corners = ((- 200 / 3, 1400 / 3, - 200 / 3), (0, 0, 400)),
      size_px = (800, 600),
      background_color = (0, 0, 0)\<rparr>"
  using square_image_size
  by (simp add: square_session_def init_def load_image_def reset_corners_def new_control_def
      update_affine_transform_matrix_def affine_transform_def square_image_def)

lemma square_session_reachable: "reachable square_session"
  unfolding square_session_def init_def
  by (simp add: reach_load reach_new two_dim_def square_image_def)

lemma square_session_has_image: "has_image square_session"
  using square_image_size by (simp add: square_session_eq has_image_def)

lemma square_session_corners: "\<not> collinear (corners square_session)"
  by (simp add: square_session_eq)

section \<open>The claims on the concrete session; frame and round trip\<close>


text \<open>Claim C7 on the concrete session, with the delta (10, 5).\<close>

theorem pan_inverse_witness:
  "reachable square_session \<and> has_image square_session \<and> \<not> collinear (corners square_session)
   \<and> fst (pan (10, 5) square_session) = None
   \<and> corners (snd (pan (neg_vec (10, 5)) (snd (pan (10, 5) square_session)))) = corners square_session"
  using pan_inverse [OF square_session_reachable square_session_has_image square_session_corners,
      of "(10, 5)"]
    square_session_reachable square_session_has_image square_session_corners
  by auto



text \<open>
  Claim C10. Frame property: pan, zoom, rotate and get\_image never change the source
  raster, the viewport size or the background colour, whether they return or raise; and
  get\_image changes none of corners, size, raster and background colour (it only refreshes
  the cached matrix).
\<close>

theorem frame_property:
  "core_image (snd (pan d s)) = core_image s \<and> size_px (snd (pan d s)) = size_px s
   \<and> background_color (snd (pan d s)) = background_color s
   \<and> core_image (snd (zoom zf c s)) = core_image s \<and> size_px (snd (zoom zf c s)) = size_px s
   \<and> background_color (snd (zoom zf c s)) = background_color s
   \<and> core_image (snd (rotate a c s)) = core_image s \<and> size_px (snd (rotate a c s)) = size_px s
   \<and> background_color (snd (rotate a c s)) = background_color s
   \<and> core_image (snd (get_image warp s)) = core_image s
   \<and> size_px (snd (get_image warp s)) = size_px s
   \<and> background_color (snd (get_image warp s)) = background_color s
   \<and> corners (snd (get_image warp s)) = corners s"
  by (simp add: pan_frame zoom_frame rotate_frame get_image_frame)




section \<open>Reset, idle states and get\_image\<close>

text \<open>
  Claim C8. \<open>reset_corners\<close> computes the centred fit in three branches, on the image
  aspect h / w against the viewport aspect H / W. Equal aspects: the fitted rectangle is
  the image, without offset. Image relatively taller (h / w > H / W): fitted height = image
  height, fitted width = W / H times the fitted height, horizontal offset = (fitted width -
  image width) / 2. Otherwise: fitted width = image width, fitted height = H / W times the
  fitted width, vertical offset = (fitted height - image height) / 2. The corners become
  the basis of the fitted rectangle shifted back by the offset, and the matrix is derived
  from them.
\<close>

theorem reset_corners_fit:
  assumes "has_image s" and "shape (core_image s) = h # w # rest"
  shows "let W = real_of_int (fst (size_px s)); H = real_of_int (snd (size_px s));
             fit = (if real h / real w = H / W then get_coords_from_size (real w, real h)
                    else if real h / real w > H / W then
                      sub_col (get_coords_from_size (W / H * real h, real h))
                        ((W / H * real h - real w) / 2, 0)
                    else
                      sub_col (get_coords_from_size (real w, H / W * real w))
                        (0, (H / W * real w - real h) / 2))
         in \<exists>m. reset_corners s = (None, s\<lparr>corners := fit, affine_transform_matrix := m\<rparr>)
                \<and> affine_transform (get_coords_from_size (float_size (size_px s))) fit = Inr m"
  unfolding Let_def reset_corners_unfold [OF assms]
  using set_corners_update [OF assms(1)] by (simp add: cache_ok_def)

text \<open>
  Claim C8 for a viewport of 800 by 600 and an image of 400 by 400: fitted height 400,
  fitted width 800 / 600 * 400, horizontal offset (800 / 600 * 400 - 400) / 2.
\<close>

theorem reset_corners_fit_witness:
  "has_image ((new_control (800, 600) (0, 0, 0))\<lparr>core_image := square_image\<rparr>)
   \<and> shape (core_image ((new_control (800, 600) (0, 0, 0))\<lparr>core_image := square_image\<rparr>)) = [400, 400, 3]
   \<and> fst (reset_corners ((new_control (800, 600) (0, 0, 0))\<lparr>core_image := square_image\<rparr>)) = None
   \<and> corners (snd (reset_corners ((new_control (800, 600) (0, 0, 0))\<lparr>core_image := square_image\<rparr>)))
        = sub_col (get_coords_from_size (800 / 600 * 400, 400)) ((800 / 600 * 400 - 400) / 2, 0)"
proof -
  let ?s = "(new_control (800, 600) (0, 0, 0))\<lparr>core_image := square_image\<rparr>"
  have a: "has_image ?s" using square_image_size by (simp add: has_image_def new_control_def)
  have b: "shape (core_image ?s) = 400 # 400 # [3]" by (simp add: square_image_def)
  from reset_corners_fit [OF a b] a b show ?thesis
    by (auto simp: Let_def new_control_def)
qed

text \<open>
  Claim C2 says that \<open>resize\<close> leaves the whole state unchanged while no raster is
  loaded. It does not: without a raster, \<open>resize\<close> still records the new size.
\<close>

theorem resize_without_image_counterexample:
  "raster_size (core_image (new_control (0, 0) (0, 0, 0))) = 0
   \<and> snd (resize (800, 600) (new_control (0, 0) (0, 0, 0))) \<noteq> new_control (0, 0) (0, 0, 0)"
  by (simp add: resize_def new_control_def raster_size_def empty_raster_def)

text \<open>
  Claim C2, amended. While no raster is loaded, pan, zoom and rotate leave the whole state
  unchanged, resize changes the viewport size and nothing else, none of them raises, and
  get\_image returns the stored raster, which has size zero, and leaves the state unchanged.
\<close>

theorem no_image_idle:
  assumes "raster_size (core_image s) = 0"
  shows "pan d s = (None, s) \<and> zoom zf zc s = (None, s) \<and> rotate a rc s = (None, s)
         \<and> resize n s = (None, s\<lparr>size_px := n\<rparr>)
         \<and> get_image warp s = (Inr (core_image s), s)"
  using assms by (simp add: pan_def zoom_def rotate_def resize_def get_image_def)

text \<open>The amended claim C2 on a freshly constructed object.\<close>

theorem no_image_idle_witness:
  "raster_size (core_image (new_control (0, 0) (0, 0, 0))) = 0
   \<and> pan (10, 5) (new_control (0, 0) (0, 0, 0)) = (None, new_control (0, 0) (0, 0, 0))
   \<and> zoom (Scalar 2) None (new_control (0, 0) (0, 0, 0)) = (None, new_control (0, 0) (0, 0, 0))
   \<and> rotate 1 None (new_control (0, 0) (0, 0, 0)) = (None, new_control (0, 0) (0, 0, 0))
   \<and> resize (800, 600) (new_control (0, 0) (0, 0, 0)) = (None, new_control (800, 600) (0, 0, 0))
   \<and> get_image (\<lambda>img m sz bg. img) (new_control (0, 0) (0, 0, 0))
        = (Inr empty_raster, new_control (0, 0) (0, 0, 0))"
proof -
  have a: "raster_size (core_image (new_control (0, 0) (0, 0, 0))) = 0"
    by (simp add: new_control_def raster_size_def empty_raster_def)
  from no_image_idle [OF a, of "(10, 5)" "Scalar 2" None 1 None "(800, 600)" "\<lambda>img m sz bg. img"] a
  show ?thesis by (simp add: new_control_def)
qed

text \<open>
  With a raster loaded and a zero dimension in the viewport size, the refresh of the matrix
  inverts a singular viewport basis: get\_image raises, and so do the mutators, after they
  have assigned the corners. With a raster and a size without a zero dimension, get\_image
  always returns a raster.
\<close>

lemma mutators_zero_dimension:
  assumes "raster_size (core_image s) \<noteq> 0" "fst (size_px s) = 0 \<or> snd (size_px s) = 0"
  shows "fst (pan d s) = Some LinAlgError" "fst (zoom zf zc s) = Some LinAlgError"
    "fst (rotate a rc s) = Some LinAlgError"
  using assms by (simp_all add: pan_def zoom_def rotate_def Let_def update_fail)

lemma get_image_zero_dimension:
  assumes "raster_size (core_image s) \<noteq> 0" "fst (size_px s) = 0 \<or> snd (size_px s) = 0"
  shows "get_image warp s = (Inl LinAlgError, s)"
  using assms by (simp add: get_image_def update_fail)

lemma get_image_has_image:
  assumes "has_image s"
  shows "\<exists>r s'. get_image warp s = (Inr r, s')"
proof -
  from assms have nz: "fst (size_px s) \<noteq> 0" "snd (size_px s) \<noteq> 0" "raster_size (core_image s) \<noteq> 0"
    by (simp_all add: has_image_def)
  from update_ok [OF nz(1,2)] obtain m where
    u: "update_affine_transform_matrix s = (None, s\<lparr>affine_transform_matrix := m\<rparr>)" by blast
  show ?thesis
  proof (cases "affine_inverse m")
    case (Inl e)
    then have "e = LinAlgError" by (auto simp: affine_inverse_def Let_def linalg_inv_Inl split: sum.splits)
    with Inl u nz show ?thesis by (simp add: get_image_def)
  next
    case (Inr mi)
    with u nz show ?thesis by (simp add: get_image_def)
  qed
qed

text \<open>
  Claim C1 says that get\_image never propagates an error once a non-empty raster is
  loaded. An object constructed with an image and the default size (0, 0) is such a state,
  and there get\_image raises LinAlgError: the matrix is refreshed before the \<^verbatim>\<open>try\<close>, and
  deriving it inverts the viewport basis, which is singular.
\<close>

theorem get_image_raises:
  "get_image warp (snd (init (Some square_image) (0, 0) (0, 0, 0)))
     = (Inl LinAlgError, (new_control (0, 0) (0, 0, 0))\<lparr>core_image := square_image\<rparr>)"
  using square_image_size
  by (simp add: init_def load_image_def reset_corners_def new_control_def get_image_def
      update_affine_transform_matrix_def affine_transform_def)

end
